theory Spec2Isabelle
  imports Main "HOL-Library.Multiset"
begin

section \<open>Values, exceptions and process exits\<close>

text \<open>
  The module \<^verbatim>\<open>helper_functions.py\<close> reads a configuration document (a nested
  dictionary loaded once from YAML) and a sample manifest (a CSV file read through
  \<^verbatim>\<open>csv.DictReader\<close>), and derives lists of file paths.  Python values that the code
  handles dynamically are modelled by one datatype; strings are \<^typ>\<open>string\<close>, paths are
  POSIX paths (\<^verbatim>\<open>os.sep\<close> is \<^verbatim>\<open>/\<close>).
\<close>

datatype pyval = PNone | PBool bool | PInt int | PStr string | PList "string list"

text \<open>
  The messages of the module.  \<open>MissingValues file n vals\<close> stands for the text
  \<^verbatim>\<open>Missing value(s) in 'file' at record #n: vals\<close>, \<open>NotSupported c\<close> for
  \<^verbatim>\<open>SV caller 'c' is not supported!\<close>, and \<open>UnknownFormat fmt\<close> for the message about
  the unknown file format \<open>fmt\<close> (which the code prints in lower case).
\<close>

datatype message =
    NotSupported string
  | UnknownFormat string
  | InvalidMode
  | MissingValues string nat "pyval list"

datatype csv_error = FieldTooLarge | NewlineInUnquotedField

datatype exn =
    AssertionError message
  | KeyError string
  | TypeError
  | CsvError csv_error

text \<open>
  A call of the module ends in one of three ways: it returns a value (\<open>Inr\<close>), an exception
  leaves the function (\<open>Inl (Raise e)\<close>), or a message is printed on standard error and the
  process is ended by \<^verbatim>\<open>os._exit(1)\<close> (\<open>Inl (OsExit m 1)\<close>).
\<close>

datatype failure = Raise exn | OsExit message nat

section \<open>The configuration\<close>

text \<open>
  \<^verbatim>\<open>config["callers"]\<close> maps a caller's name to its settings, themselves a dictionary
  (\<^verbatim>\<open>outdir\<close>, \<^verbatim>\<open>threads\<close>, \<^verbatim>\<open>memory\<close>, \<^verbatim>\<open>tmpspace\<close>, ...);
  \<^verbatim>\<open>config["file_exts"]\<close> maps a format name to its extension.
\<close>

record config =
  samples :: string
  mode :: string
  enable_callers :: "string list"
  callers :: "string \<rightharpoonup> (string \<rightharpoonup> pyval)"
  file_exts :: "string \<rightharpoonup> string"

subsection \<open>Strings and paths\<close>

definition startswith :: "string \<Rightarrow> string \<Rightarrow> bool" where
  "startswith s p = (take (length p) s = p)"

definition endswith :: "string \<Rightarrow> string \<Rightarrow> bool" where
  "endswith s p = (length p \<le> length s \<and> drop (length s - length p) s = p)"

text \<open>One round of the loop of \<^verbatim>\<open>posixpath.join\<close>.\<close>

definition join_step :: "string \<Rightarrow> string \<Rightarrow> string" where
  "join_step path b =
     (if startswith b ''/'' then b
      else if path = [] \<or> endswith path ''/'' then path @ b
      else path @ ''/'' @ b)"

definition join_str :: "string \<Rightarrow> string list \<Rightarrow> string" where
  "join_str a p = foldl join_step a p"

fun is_str :: "pyval \<Rightarrow> bool" where
  "is_str (PStr s) = True"
| "is_str v = False"

fun str_of :: "pyval \<Rightarrow> string" where
  "str_of (PStr s) = s"
| "str_of v = []"

text \<open>\<^verbatim>\<open>os.path.join(a, *p)\<close>: a \<^verbatim>\<open>TypeError\<close> unless every argument is a string.\<close>

definition os_path_join :: "pyval \<Rightarrow> pyval list \<Rightarrow> exn + string" where
  "os_path_join a p =
     (if is_str a \<and> list_all is_str p then Inr (join_str (str_of a) (map str_of p))
      else Inl TypeError)"

text \<open>\<^verbatim>\<open>s + v\<close> for a string \<open>s\<close>: a \<^verbatim>\<open>TypeError\<close> unless \<open>v\<close> is a string.\<close>

definition str_add :: "string \<Rightarrow> pyval \<Rightarrow> exn + string" where
  "str_add s v = (case v of PStr t \<Rightarrow> Inr (s @ t) | _ \<Rightarrow> Inl TypeError)"

text \<open>\<^verbatim>\<open>f.split("/")\<close>: the pieces between the separators, never an empty list.\<close>

fun split_sep :: "string \<Rightarrow> string list" where
  "split_sep [] = [[]]"
| "split_sep (c # cs) =
     (if c = CHR ''/'' then [] # split_sep cs
      else (case split_sep cs of [] \<Rightarrow> [[c]] | w # ws \<Rightarrow> (c # w) # ws))"

text \<open>\<^verbatim>\<open>"/".join(xs)\<close>.\<close>

fun sep_join :: "string list \<Rightarrow> string" where
  "sep_join [] = []"
| "sep_join [x] = x"
| "sep_join (x # y # ys) = x @ ''/'' @ sep_join (y # ys)"

section \<open>Accessors over the configuration\<close>

fun get_callers_loop :: "config \<Rightarrow> string list \<Rightarrow> string list \<Rightarrow> failure + string list" where
  "get_callers_loop cfg [] acc = Inr acc"
| "get_callers_loop cfg (c # cs) acc =
     (if callers cfg c = None then Inl (Raise (AssertionError (NotSupported c)))
      else get_callers_loop cfg cs (acc @ [c]))"

definition get_callers :: "config \<Rightarrow> failure + string list" where
  "get_callers cfg = get_callers_loop cfg (enable_callers cfg) []"

definition get_filext :: "config \<Rightarrow> string \<Rightarrow> failure + string" where
  "get_filext cfg fmt =
     (case file_exts cfg fmt of
        None \<Rightarrow> Inl (Raise (AssertionError (UnknownFormat fmt)))
      | Some e \<Rightarrow> Inr e)"

text \<open>
  \<^verbatim>\<open>config["callers"][caller][key]\<close>: a \<^verbatim>\<open>KeyError\<close> for the first key that is absent.
\<close>

definition caller_settings :: "config \<Rightarrow> string \<Rightarrow> failure + (string \<rightharpoonup> pyval)" where
  "caller_settings cfg caller =
     (case callers cfg caller of None \<Rightarrow> Inl (Raise (KeyError caller)) | Some s \<Rightarrow> Inr s)"

definition get_outdir :: "config \<Rightarrow> string \<Rightarrow> failure + pyval" where
  "get_outdir cfg caller =
     (case caller_settings cfg caller of
        Inl e \<Rightarrow> Inl e
      | Inr s \<Rightarrow> (case s ''outdir'' of None \<Rightarrow> Inl (Raise (KeyError ''outdir'')) | Some v \<Rightarrow> Inr v))"

definition get_nthreads :: "config \<Rightarrow> string \<Rightarrow> failure + pyval" where
  "get_nthreads cfg caller =
     (case caller_settings cfg caller of
        Inl e \<Rightarrow> Inl e
      | Inr s \<Rightarrow> (case s ''threads'' of Some v \<Rightarrow> Inr v | None \<Rightarrow> Inr (PInt 1)))"

definition get_memory :: "config \<Rightarrow> string \<Rightarrow> failure + pyval" where
  "get_memory cfg caller =
     (case caller_settings cfg caller of
        Inl e \<Rightarrow> Inl e
      | Inr s \<Rightarrow> (case s ''memory'' of Some v \<Rightarrow> Inr v | None \<Rightarrow> Inr (PInt 1024)))"

definition get_tmpspace :: "config \<Rightarrow> string \<Rightarrow> failure + pyval" where
  "get_tmpspace cfg caller =
     (case caller_settings cfg caller of
        Inl e \<Rightarrow> Inl e
      | Inr s \<Rightarrow> (case s ''tmpspace'' of Some v \<Rightarrow> Inr v | None \<Rightarrow> Inr (PInt 0)))"

section \<open>Reading the manifest\<close>

subsection \<open>The reader of the csv module, default dialect\<close>

text \<open>
  \<^verbatim>\<open>DictReader\<close> sits on \<^verbatim>\<open>csv.reader\<close> in the \<^verbatim>\<open>excel\<close> dialect: delimiter
  \<^verbatim>\<open>,\<close>, quote character \<^verbatim>\<open>"\<close> doubled inside a quoted field, no escape character,
  not strict.  The reader is a state machine fed one character at a time, and \<open>None\<close> at the
  end of each line.  A field may not grow beyond the module's limit of 131072 characters, and
  after the line end of a record only further line ends may follow on the same line.
\<close>

datatype parser_state =
  START_RECORD | START_FIELD | IN_FIELD | IN_QUOTED_FIELD | QUOTE_IN_QUOTED_FIELD | EAT_CRNL

record reader_obj =
  rstate :: parser_state
  rfields :: "string list"
  rfield :: string

definition parse_reset :: reader_obj where
  "parse_reset = \<lparr>rstate = START_RECORD, rfields = [], rfield = []\<rparr>"

definition parse_save_field :: "reader_obj \<Rightarrow> reader_obj" where
  "parse_save_field self = self\<lparr>rfields := rfields self @ [rfield self], rfield := []\<rparr>"

definition parse_add_char :: "reader_obj \<Rightarrow> char \<Rightarrow> exn + reader_obj" where
  "parse_add_char self c =
     (if 131072 \<le> length (rfield self) then Inl (CsvError FieldTooLarge)
      else Inr (self\<lparr>rfield := rfield self @ [c]\<rparr>))"

definition is_nl :: "char \<Rightarrow> bool" where
  "is_nl c = (c = CHR 0x0A \<or> c = CHR 0x0D)"

definition end_of_record :: "reader_obj \<Rightarrow> char option \<Rightarrow> reader_obj" where
  "end_of_record self c =
     (parse_save_field self)\<lparr>rstate := (if c = None then START_RECORD else EAT_CRNL)\<rparr>"

definition start_field :: "reader_obj \<Rightarrow> char option \<Rightarrow> exn + reader_obj" where
  "start_field self c =
     (case c of
        None \<Rightarrow> Inr (end_of_record self c)
      | Some x \<Rightarrow>
          if is_nl x then Inr (end_of_record self c)
          else if x = CHR 0x22 then Inr (self\<lparr>rstate := IN_QUOTED_FIELD\<rparr>)
          else if x = CHR '','' then Inr (parse_save_field self)
          else map_sum id (\<lambda>r. r\<lparr>rstate := IN_FIELD\<rparr>) (parse_add_char self x))"

definition parse_process_char :: "reader_obj \<Rightarrow> char option \<Rightarrow> exn + reader_obj" where
  "parse_process_char self c =
     (case rstate self of
        START_RECORD \<Rightarrow>
          (case c of
             None \<Rightarrow> Inr self
           | Some x \<Rightarrow>
               if is_nl x then Inr (self\<lparr>rstate := EAT_CRNL\<rparr>)
               else start_field (self\<lparr>rstate := START_FIELD\<rparr>) c)
      | START_FIELD \<Rightarrow> start_field self c
      | IN_FIELD \<Rightarrow>
          (case c of
             None \<Rightarrow> Inr (end_of_record self c)
           | Some x \<Rightarrow>
               if is_nl x then Inr (end_of_record self c)
               else if x = CHR '','' then Inr ((parse_save_field self)\<lparr>rstate := START_FIELD\<rparr>)
               else parse_add_char self x)
      | IN_QUOTED_FIELD \<Rightarrow>
          (case c of
             None \<Rightarrow> Inr self
           | Some x \<Rightarrow>
               if x = CHR 0x22 then Inr (self\<lparr>rstate := QUOTE_IN_QUOTED_FIELD\<rparr>)
               else parse_add_char self x)
      | QUOTE_IN_QUOTED_FIELD \<Rightarrow>
          (case c of
             None \<Rightarrow> Inr (end_of_record self c)
           | Some x \<Rightarrow>
               if x = CHR 0x22
               then map_sum id (\<lambda>r. r\<lparr>rstate := IN_QUOTED_FIELD\<rparr>) (parse_add_char self x)
               else if x = CHR '','' then Inr ((parse_save_field self)\<lparr>rstate := START_FIELD\<rparr>)
               else if is_nl x then Inr (end_of_record self c)
               else map_sum id (\<lambda>r. r\<lparr>rstate := IN_FIELD\<rparr>) (parse_add_char self x))
      | EAT_CRNL \<Rightarrow>
          (case c of
             None \<Rightarrow> Inr (self\<lparr>rstate := START_RECORD\<rparr>)
           | Some x \<Rightarrow>
               if is_nl x then Inr self else Inl (CsvError NewlineInUnquotedField)))"

text \<open>One line: its characters, then the end-of-line signal.\<close>

fun parse_line :: "reader_obj \<Rightarrow> string \<Rightarrow> exn + reader_obj" where
  "parse_line self [] = parse_process_char self None"
| "parse_line self (c # cs) =
     (case parse_process_char self (Some c) of
        Inl e \<Rightarrow> Inl e
      | Inr self' \<Rightarrow> parse_line self' cs)"

text \<open>
  The records the reader yields over the lines it is given, in order, and the error that
  ends the iteration if there is one.  A record is complete when a line ends in state
  \<open>START_RECORD\<close>; at the end of the input an unfinished quoted field is still delivered.
  The reader is lazy: the error, if any, reaches the caller only after the records before
  it have been handed out.
\<close>

fun csv_reader :: "reader_obj \<Rightarrow> string list \<Rightarrow> string list list \<times> exn option" where
  "csv_reader self [] =
     (if rfield self \<noteq> [] \<or> rstate self = IN_QUOTED_FIELD
      then ([rfields (parse_save_field self)], None)
      else ([], None))"
| "csv_reader self (line # rest) =
     (case parse_line self line of
        Inl e \<Rightarrow> ([], Some e)
      | Inr self' \<Rightarrow>
          if rstate self' = START_RECORD
          then (case csv_reader parse_reset rest of (recs, err) \<Rightarrow> (rfields self' # recs, err))
          else csv_reader self' rest)"

subsection \<open>DictReader\<close>

text \<open>
  A row is a Python dictionary in insertion order.  Its keys are the header's names
  (\<open>Some name\<close>) and, for a row longer than the header, the rest key \<^verbatim>\<open>None\<close>
  (\<open>None\<close>), which holds the list of the surplus cells; a row shorter than the header has
  the rest value \<^verbatim>\<open>None\<close> (\<open>PNone\<close>) under the names it does not reach.
\<close>

type_synonym row = "(string option \<times> pyval) list"

fun setitem :: "('k \<times> 'v) list \<Rightarrow> 'k \<Rightarrow> 'v \<Rightarrow> ('k \<times> 'v) list" where
  "setitem [] k v = [(k, v)]"
| "setitem ((k', v') # d) k v =
     (if k' = k then (k, v) # d else (k', v') # setitem d k v)"

definition dict_of :: "('k \<times> 'v) list \<Rightarrow> ('k \<times> 'v) list" where
  "dict_of kvs = foldl (\<lambda>d (k, v). setitem d k v) [] kvs"

definition dict_row :: "string list \<Rightarrow> string list \<Rightarrow> row" where
  "dict_row fieldnames cells =
     (let d = dict_of (zip (map Some fieldnames) (map PStr cells));
          lf = length fieldnames;
          lr = length cells
      in if lf < lr then setitem d None (PList (drop lf cells))
         else if lr < lf then foldl (\<lambda>d key. setitem d (Some key) PNone) d (drop lr fieldnames)
         else d)"

text \<open>
  The first record is the header; empty records (blank lines) among the data are skipped.
\<close>

definition DictReader :: "string list \<Rightarrow> row list \<times> exn option" where
  "DictReader f =
     (case csv_reader parse_reset f of
        ([], err) \<Rightarrow> ([], err)
      | (fieldnames # recs, err) \<Rightarrow>
          (map (dict_row fieldnames) (filter (\<lambda>cells. cells \<noteq> []) recs), err))"

definition getitem :: "row \<Rightarrow> string \<Rightarrow> exn + pyval" where
  "getitem r k = (case map_of r (Some k) of None \<Rightarrow> Inl (KeyError k) | Some v \<Rightarrow> Inr v)"

definition dict_values :: "row \<Rightarrow> pyval list" where
  "dict_values r = map snd r"

section \<open>Deriving the targets\<close>

definition is_ok :: "pyval \<Rightarrow> pyval" where
  "is_ok s = (if s = PNone \<or> s = PStr [] then PBool False else s)"

text \<open>
  The body of the \<^verbatim>\<open>try\<close> block of \<^verbatim>\<open>make_output\<close>: the sample path of one row.
  The operands are evaluated left to right, so a missing column is a \<^verbatim>\<open>KeyError\<close>
  before any value is inspected.
\<close>

definition sample_path :: "string \<Rightarrow> row \<Rightarrow> exn + string" where
  "sample_path m r =
     (case getitem r ''PATH'' of
        Inl e \<Rightarrow> Inl e
      | Inr a \<Rightarrow>
          (case getitem r ''SAMPLE1'' of
             Inl e \<Rightarrow> Inl e
           | Inr b \<Rightarrow>
               (case os_path_join a [is_ok b] of
                  Inl e \<Rightarrow> Inl e
                | Inr path \<Rightarrow>
                    if startswith m ''p''
                    then (case getitem r ''SAMPLE2'' of
                            Inl e \<Rightarrow> Inl e
                          | Inr c \<Rightarrow>
                              (case str_add ''--'' (is_ok c) of
                                 Inl e \<Rightarrow> Inl e
                               | Inr t \<Rightarrow> Inr (path @ t)))
                    else Inr path)))"

text \<open>The inner loop: one target for each caller, appended to \<open>outfiles\<close>.\<close>

fun callers_loop :: "config \<Rightarrow> string \<Rightarrow> string list \<Rightarrow> string list \<Rightarrow> failure + string list" where
  "callers_loop cfg path [] outfiles = Inr outfiles"
| "callers_loop cfg path (c # cs) outfiles =
     (case get_filext cfg ''vcf'' of
        Inl e \<Rightarrow> Inl e
      | Inr ext \<Rightarrow>
          (case get_outdir cfg c of
             Inl e \<Rightarrow> Inl e
           | Inr d \<Rightarrow>
               (case os_path_join (PStr path) [d, PStr ''survivor'', PStr (c @ ext)] of
                  Inl e \<Rightarrow> Inl (Raise e)
                | Inr vcf \<Rightarrow> callers_loop cfg path cs (outfiles @ [vcf]))))"

text \<open>
  The outer loop over \<^verbatim>\<open>enumerate(reader)\<close>.  Only a \<^verbatim>\<open>TypeError\<close> of the
  \<^verbatim>\<open>try\<close> block is caught (message, then exit); \<^verbatim>\<open>get_callers()\<close> is called once
  for every row, after the row's path has been built.  \<open>pending\<close> is the error the csv
  reader raises when the loop asks for the row after the last one.
\<close>

fun make_output_loop ::
  "config \<Rightarrow> nat \<Rightarrow> row list \<Rightarrow> exn option \<Rightarrow> string list \<Rightarrow> failure + string list" where
  "make_output_loop cfg i [] pending outfiles =
     (case pending of None \<Rightarrow> Inr outfiles | Some e \<Rightarrow> Inl (Raise e))"
| "make_output_loop cfg i (r # rs) pending outfiles =
     (case sample_path (mode cfg) r of
        Inl e \<Rightarrow>
          (if e = TypeError
           then Inl (OsExit (MissingValues (samples cfg) (i + 1) (dict_values r)) 1)
           else Inl (Raise e))
      | Inr path \<Rightarrow>
          (case get_callers cfg of
             Inl e \<Rightarrow> Inl e
           | Inr cs \<Rightarrow>
               (case callers_loop cfg path cs outfiles of
                  Inl e \<Rightarrow> Inl e
                | Inr outfiles' \<Rightarrow> make_output_loop cfg (i + 1) rs pending outfiles')))"

definition is_comment :: "string \<Rightarrow> bool" where
  "is_comment line = startswith line ''#''"

text \<open>The generator \<^verbatim>\<open>(line for line in fp if not line.startswith("#"))\<close>.\<close>

definition data_lines :: "string list \<Rightarrow> string list" where
  "data_lines fp = filter (\<lambda>line. \<not> is_comment line) fp"

text \<open>
  \<^verbatim>\<open>make_output\<close>, given the configuration and the lines that iterating over the opened
  manifest yields (each with its line end).  The file named by \<^verbatim>\<open>config["samples"]\<close> is
  taken to exist and to be readable: a failure of \<^verbatim>\<open>open\<close> is outside this model.  The
  mode is checked after the file is opened and before the first line is read.
\<close>

definition make_output :: "config \<Rightarrow> string list \<Rightarrow> failure + string list" where
  "make_output cfg fp =
     (if mode cfg \<noteq> ''s'' \<and> mode cfg \<noteq> ''p'' then Inl (OsExit InvalidMode 1)
      else (case DictReader (data_lines fp) of
              (rows, pending) \<Rightarrow> make_output_loop cfg 0 rows pending []))"

text \<open>
  \<^verbatim>\<open>make_all\<close>: every target loses its last three components and gets \<^verbatim>\<open>all.vcf\<close>;
  the list is returned as a set.
\<close>

definition merged_path :: "string \<Rightarrow> string" where
  "merged_path f =
     (let parts = split_sep f
      in join_str (sep_join (take (length parts - 3) parts)) [''all.vcf''])"

definition merge_targets :: "string list \<Rightarrow> string set" where
  "merge_targets outfiles = set (map merged_path outfiles)"

definition make_all :: "config \<Rightarrow> string list \<Rightarrow> failure + string set" where
  "make_all cfg fp =
     (case make_output cfg fp of Inl e \<Rightarrow> Inl e | Inr outfiles \<Rightarrow> Inr (merge_targets outfiles))"


section \<open>Predicates on rows\<close>

text \<open>
  What the \<^verbatim>\<open>try\<close> block accepts and what it builds, read off the cells of a row.
  \<open>row_ok\<close> and \<open>row_dir\<close> are proved below to describe \<open>sample_path\<close> exactly.
\<close>

definition has_key :: "row \<Rightarrow> string \<Rightarrow> bool" where
  "has_key r k = (map_of r (Some k) \<noteq> None)"

definition has_str :: "row \<Rightarrow> string \<Rightarrow> bool" where
  "has_str r k = (case map_of r (Some k) of Some (PStr s) \<Rightarrow> True | _ \<Rightarrow> False)"

definition filled :: "row \<Rightarrow> string \<Rightarrow> bool" where
  "filled r k = (case map_of r (Some k) of Some (PStr s) \<Rightarrow> s \<noteq> [] | _ \<Rightarrow> False)"

definition cell_str :: "row \<Rightarrow> string \<Rightarrow> string" where
  "cell_str r k = (case map_of r (Some k) of Some (PStr s) \<Rightarrow> s | _ \<Rightarrow> [])"

definition row_ok :: "string \<Rightarrow> row \<Rightarrow> bool" where
  "row_ok m r =
     (has_str r ''PATH'' \<and> filled r ''SAMPLE1'' \<and> (if startswith m ''p'' then filled r ''SAMPLE2'' else True))"

definition row_dir :: "string \<Rightarrow> row \<Rightarrow> string" where
  "row_dir m r =
     join_str (cell_str r ''PATH'') [cell_str r ''SAMPLE1'']
       @ (if startswith m ''p'' then ''--'' @ cell_str r ''SAMPLE2'' else [])"

text \<open>
  A cell is missing when the row is too short to reach its column (\<^verbatim>\<open>DictReader\<close> then
  stores \<^verbatim>\<open>None\<close>), and empty when it holds the empty string.
\<close>

definition missing :: "row \<Rightarrow> string \<Rightarrow> bool" where
  "missing r k = (map_of r (Some k) = Some PNone)"

definition missing_or_empty :: "row \<Rightarrow> string \<Rightarrow> bool" where
  "missing_or_empty r k = (map_of r (Some k) = Some PNone \<or> map_of r (Some k) = Some (PStr []))"

definition required_missing :: "string \<Rightarrow> row \<Rightarrow> bool" where
  "required_missing m r =
     (has_key r ''PATH'' \<and> has_key r ''SAMPLE1'' \<and>
      (if startswith m ''p''
       then has_key r ''SAMPLE2'' \<and>
            (missing r ''PATH'' \<or> missing_or_empty r ''SAMPLE1'' \<or> missing_or_empty r ''SAMPLE2'')
       else (missing r ''PATH'' \<or> missing_or_empty r ''SAMPLE1'')))"

text \<open>Two rows that differ at most in what they hold under \<^verbatim>\<open>SAMPLE2\<close>.\<close>

definition same_but_sample2 :: "row \<Rightarrow> row \<Rightarrow> bool" where
  "same_but_sample2 r r' = (\<forall>k. k \<noteq> Some ''SAMPLE2'' \<longrightarrow> map_of r k = map_of r' k)"

text \<open>What a call returns, if it returns.\<close>

definition returned :: "failure + 'a \<Rightarrow> 'a option" where
  "returned x = (case x of Inl e \<Rightarrow> None | Inr v \<Rightarrow> Some v)"

section \<open>Example inputs\<close>

definition eol :: "string \<Rightarrow> string" where
  "eol s = s @ [CHR 0x0A]"

definition ex_config :: config where
  "ex_config =
     \<lparr>samples = ''samples.csv'', mode = ''p'', enable_callers = [''manta''],
      callers = [''manta'' \<mapsto> [''outdir'' \<mapsto> PStr ''manta_out'', ''memory'' \<mapsto> PInt 2048],
                 ''delly'' \<mapsto> [''outdir'' \<mapsto> PStr ''delly_out'']],
      file_exts = [''vcf'' \<mapsto> ''.vcf'']\<rparr>"

definition ex_manifest :: "string list" where
  "ex_manifest = [eol ''PATH,SAMPLE1,SAMPLE2'', eol ''runs,A,B'']"

definition ex_row :: row where
  "ex_row = [(Some ''PATH'', PStr ''runs''), (Some ''SAMPLE1'', PStr ''A''), (Some ''SAMPLE2'', PStr ''B'')]"

definition ex_header :: string where
  "ex_header = eol ''PATH,SAMPLE1,SAMPLE2''"

definition ex_short :: "string list" where
  "ex_short = [ex_header, eol ''runs,A,B'', eol ''runs,C'']"

definition ex_row_short :: row where
  "ex_row_short = [(Some ''PATH'', PStr ''runs''), (Some ''SAMPLE1'', PStr ''C''), (Some ''SAMPLE2'', PNone)]"

definition ex_two :: "string list" where
  "ex_two = [ex_header, eol ''runs,A,B'', eol ''runs,C,D'']"

definition ex_row2 :: row where
  "ex_row2 = [(Some ''PATH'', PStr ''runs''), (Some ''SAMPLE1'', PStr ''C''), (Some ''SAMPLE2'', PStr ''D'')]"

definition ex_manifest_no2 :: "string list" where
  "ex_manifest_no2 = [ex_header, eol ''runs,A'']"

definition ex_row_no2 :: row where
  "ex_row_no2 = [(Some ''PATH'', PStr ''runs''), (Some ''SAMPLE1'', PStr ''A''), (Some ''SAMPLE2'', PNone)]"

definition ex_empty_path :: "string list" where
  "ex_empty_path = [eol ''PATH,SAMPLE1'', eol '',A'']"

definition ex_row_empty_path :: row where
  "ex_row_empty_path = [(Some ''PATH'', PStr []), (Some ''SAMPLE1'', PStr ''A'')]"

definition ex_bad_first :: "string list" where
  "ex_bad_first = [ex_header, eol ''runs,,B'']"

definition ex_row_bad :: row where
  "ex_row_bad = [(Some ''PATH'', PStr ''runs''), (Some ''SAMPLE1'', PStr []), (Some ''SAMPLE2'', PStr ''B'')]"

definition ex_commented :: "string list" where
  "ex_commented = [eol ''# sample sheet'', ex_header, eol ''runs,A,B'', eol ''#runs,X,Y'', eol ''runs,C'']"

definition ex_ghost :: config where
  "ex_ghost = ex_config\<lparr>enable_callers := [''manta'', ''ghost'']\<rparr>"

definition ex_config2 :: config where
  "ex_config2 = ex_config\<lparr>enable_callers := [''manta'', ''delly'']\<rparr>"

definition ex_single :: config where
  "ex_single = ex_config\<lparr>mode := ''s''\<rparr>"

definition ex_outdir :: "string \<Rightarrow> string" where
  "ex_outdir c = (if c = ''manta'' then ''manta_out'' else ''delly_out'')"

section \<open>Properties of the loops\<close>

lemma sample_path_ok: "row_ok m r \<Longrightarrow> sample_path m r = Inr (row_dir m r)"
  by (auto simp: row_ok_def row_dir_def sample_path_def getitem_def has_str_def filled_def
      cell_str_def os_path_join_def is_ok_def str_add_def
      split: option.splits pyval.splits if_splits)

lemma sample_path_Inr_row_ok: "sample_path m r = Inr p \<Longrightarrow> row_ok m r"
  by (auto simp: row_ok_def sample_path_def getitem_def has_str_def filled_def
      os_path_join_def is_ok_def str_add_def
      split: option.splits pyval.splits if_splits sum.splits)

lemma get_callers_loop_find:
  "get_callers_loop cfg cs acc =
     (case find (\<lambda>c. callers cfg c = None) cs of
        None \<Rightarrow> Inr (acc @ cs)
      | Some c \<Rightarrow> Inl (Raise (AssertionError (NotSupported c))))"
  by (induction cs arbitrary: acc) (auto split: option.splits)

lemma get_callers_find:
  "get_callers cfg =
     (case find (\<lambda>c. callers cfg c = None) (enable_callers cfg) of
        None \<Rightarrow> Inr (enable_callers cfg)
      | Some c \<Rightarrow> Inl (Raise (AssertionError (NotSupported c))))"
  by (simp add: get_callers_def get_callers_loop_find split: option.splits)

lemma get_outdir_supported: "get_outdir cfg c = Inr d \<Longrightarrow> callers cfg c \<noteq> None"
  by (auto simp: get_outdir_def caller_settings_def split: option.splits)

lemma callers_loop_ok:
  assumes "get_filext cfg ''vcf'' = Inr ext"
    and "\<forall>c\<in>set cs. get_outdir cfg c = Inr (PStr (od c))"
  shows "callers_loop cfg path cs outfiles =
           Inr (outfiles @ map (\<lambda>c. join_str path [od c, ''survivor'', c @ ext]) cs)"
  using assms
  by (induction cs arbitrary: outfiles) (auto simp: os_path_join_def)

lemma make_output_loop_ok:
  assumes "get_filext cfg ''vcf'' = Inr ext"
    and "\<forall>c\<in>set (enable_callers cfg). get_outdir cfg c = Inr (PStr (od c))"
    and "list_all (row_ok (mode cfg)) rows"
  shows "make_output_loop cfg i rows None outfiles =
           Inr (outfiles @ concat (map (\<lambda>r. map (\<lambda>c. join_str (row_dir (mode cfg) r) [od c, ''survivor'', c @ ext])
                                     (enable_callers cfg)) rows))"
proof -
  have sup: "find (\<lambda>c. callers cfg c = None) (enable_callers cfg) = None"
    using assms(2) by (auto simp: find_None_iff dest: get_outdir_supported)
  have gc: "get_callers cfg = Inr (enable_callers cfg)"
    by (simp add: get_callers_find sup)
  show ?thesis
    using assms(3)
  proof (induction rows arbitrary: i outfiles)
    case Nil
    then show ?case by simp
  next
    case (Cons r rows)
    then have ok: "row_ok (mode cfg) r" and rest: "list_all (row_ok (mode cfg)) rows"
      by simp_all
    show ?case
      by (simp add: sample_path_ok [OF ok] gc callers_loop_ok [OF assms(1) assms(2)] Cons.IH [OF rest])
  qed
qed

lemma length_concat_const:
  "length (concat (map (\<lambda>r. map (f r) cs) rows)) = length rows * length cs"
  by (induction rows) auto

lemma make_output_loop_append:
  "make_output_loop cfg i (xs @ ys) pending outfiles =
     (case make_output_loop cfg i xs None outfiles of
        Inl e \<Rightarrow> Inl e
      | Inr outfiles' \<Rightarrow> make_output_loop cfg (i + length xs) ys pending outfiles')"
  by (induction xs arbitrary: i outfiles) (auto split: sum.splits)

lemma make_output_loop_bad_row:
  "r \<in> set rows \<Longrightarrow> sample_path (mode cfg) r = Inl e \<Longrightarrow> isl (make_output_loop cfg i rows pending outfiles)"
  by (induction rows arbitrary: i outfiles) (auto split: sum.splits)

lemma startswith_sep: "startswith s ''/'' \<longleftrightarrow> (s \<noteq> [] \<and> hd s = CHR ''/'')"
  by (cases s) (auto simp: startswith_def)

lemma endswith_sep: "endswith s ''/'' \<longleftrightarrow> (s \<noteq> [] \<and> last s = CHR ''/'')"
proof (cases s rule: rev_cases)
  case Nil
  then show ?thesis by (simp add: endswith_def)
next
  case (snoc ys y)
  then show ?thesis by (auto simp: endswith_def)
qed

lemma join_str_two:
  "p \<noteq> [] \<Longrightarrow> \<not> endswith p ''/'' \<Longrightarrow> \<not> startswith b ''/'' \<Longrightarrow> join_str p [b] = p @ ''/'' @ b"
  by (simp add: join_str_def join_step_def)

lemma join_str_plain:
  assumes "p \<noteq> []" "\<not> endswith p ''/''" "d \<noteq> []" "\<not> startswith d ''/''" "\<not> endswith d ''/''"
    "\<not> startswith n ''/''"
  shows "join_str p [d, ''survivor'', n] = p @ ''/'' @ d @ ''/survivor/'' @ n"
  using assms
  by (simp add: join_str_def join_step_def endswith_sep startswith_sep)

lemma sample_path_single_paired:
  assumes "map_of r (Some ''PATH'') = Some (PStr p)"
    and "map_of r (Some ''SAMPLE1'') = Some (PStr s1)"
    and "map_of r (Some ''SAMPLE2'') = Some (PStr s2)"
    and "s1 \<noteq> []" and "s2 \<noteq> []"
  shows "sample_path ''s'' r = Inr (join_str p [s1])"
    and "sample_path ''p'' r = Inr (join_str p [s1] @ ''--'' @ s2)"
  using assms
  by (simp_all add: sample_path_def getitem_def os_path_join_def is_ok_def str_add_def startswith_def)

lemma sample_path_single_same:
  assumes "same_but_sample2 r r'"
  shows "sample_path ''s'' r = sample_path ''s'' r'"
proof -
  have "map_of r (Some ''PATH'') = map_of r' (Some ''PATH'')"
    and "map_of r (Some ''SAMPLE1'') = map_of r' (Some ''SAMPLE1'')"
    using assms by (simp_all add: same_but_sample2_def)
  then show ?thesis
    by (simp add: sample_path_def getitem_def startswith_def split: sum.splits option.splits)
qed

lemma single_loop_same:
  assumes "mode cfg = ''s''" and "list_all2 same_but_sample2 rows rows'"
  shows "returned (make_output_loop cfg i rows pending outfiles)
       = returned (make_output_loop cfg i rows' pending outfiles)"
  using assms(2)
proof (induction rows rows' arbitrary: i outfiles rule: list_all2_induct)
  case Nil
  then show ?case by simp
next
  case (Cons r rs r' rs')
  have eq: "sample_path (mode cfg) r = sample_path (mode cfg) r'"
    using Cons.hyps(1) assms(1) by (simp add: sample_path_single_same)
  show ?case
  proof (cases "sample_path (mode cfg) r'")
    case (Inl e)
    then show ?thesis by (simp add: eq returned_def)
  next
    case p: (Inr p)
    show ?thesis
    proof (cases "get_callers cfg")
      case (Inl e)
      then show ?thesis by (simp add: eq p returned_def)
    next
      case cs: (Inr cs)
      show ?thesis
      proof (cases "callers_loop cfg p cs outfiles")
        case (Inl e)
        then show ?thesis by (simp add: eq p cs returned_def)
      next
        case (Inr out')
        then show ?thesis by (simp add: eq p cs Cons.IH)
      qed
    qed
  qed
qed

lemma returned_Inr: "(x = Inr v) = (returned x = Some v)"
  by (cases x) (simp_all add: returned_def)

lemma returned_isl: "isl x = (returned x = None)"
  by (cases x) (simp_all add: returned_def)

lemma callers_loop_elems:
  assumes "callers_loop cfg path cs outfiles = Inr outs" and "t \<in> set outs"
  shows "t \<in> set outfiles \<or>
         (\<exists>c\<in>set cs. \<exists>d ext. get_outdir cfg c = Inr (PStr d) \<and> get_filext cfg ''vcf'' = Inr ext
            \<and> t = join_str path [d, ''survivor'', c @ ext])"
  using assms
proof (induction cs arbitrary: outfiles)
  case Nil
  then show ?case by simp
next
  case (Cons c cs)
  from Cons.prems(1) obtain ext d vcf where
    e: "get_filext cfg ''vcf'' = Inr ext" and d: "get_outdir cfg c = Inr d"
    and j: "os_path_join (PStr path) [d, PStr ''survivor'', PStr (c @ ext)] = Inr vcf"
    and rest: "callers_loop cfg path cs (outfiles @ [vcf]) = Inr outs"
    by (auto split: sum.splits)
  from j obtain ds where ds: "d = PStr ds" and vcf: "vcf = join_str path [ds, ''survivor'', c @ ext]"
    by (cases d) (auto simp: os_path_join_def)
  from Cons.IH [OF rest Cons.prems(2)] show ?case
    using e d ds vcf by auto
qed

lemma get_callers_Inr: "get_callers cfg = Inr cs \<Longrightarrow> cs = enable_callers cfg"
  by (auto simp: get_callers_find split: option.splits)

lemma make_output_loop_elems:
  assumes "make_output_loop cfg i rows pending outfiles = Inr outs" and "t \<in> set outs"
  shows "t \<in> set outfiles \<or>
         (\<exists>r\<in>set rows. \<exists>c\<in>set (enable_callers cfg). \<exists>p d ext.
            sample_path (mode cfg) r = Inr p \<and> get_outdir cfg c = Inr (PStr d)
            \<and> get_filext cfg ''vcf'' = Inr ext \<and> t = join_str p [d, ''survivor'', c @ ext])"
  using assms
proof (induction rows arbitrary: i outfiles)
  case Nil
  then show ?case by (simp split: option.splits)
next
  case (Cons r rows)
  from Cons.prems(1) obtain p cs out' where
    p: "sample_path (mode cfg) r = Inr p" and cs: "get_callers cfg = Inr cs"
    and cl: "callers_loop cfg p cs outfiles = Inr out'"
    and rest: "make_output_loop cfg (i + 1) rows pending out' = Inr outs"
    by (auto split: sum.splits if_splits)
  have cs': "cs = enable_callers cfg" using cs by (rule get_callers_Inr)
  from Cons.IH [OF rest Cons.prems(2)] show ?case
  proof
    assume "t \<in> set out'"
    from callers_loop_elems [OF cl this] show ?thesis
      using p cs' by auto
  next
    assume "\<exists>r\<in>set rows. \<exists>c\<in>set (enable_callers cfg). \<exists>p d ext.
            sample_path (mode cfg) r = Inr p \<and> get_outdir cfg c = Inr (PStr d)
            \<and> get_filext cfg ''vcf'' = Inr ext \<and> t = join_str p [d, ''survivor'', c @ ext]"
    then show ?thesis by auto
  qed
qed

lemma data_lines_insert:
  "list_all is_comment cs \<Longrightarrow> data_lines (xs @ cs @ ys) = data_lines (xs @ ys)"
  by (simp add: data_lines_def list_all_iff)

lemma data_lines_idem: "data_lines (data_lines fp) = data_lines fp"
  by (simp add: data_lines_def)

lemma make_output_data_lines:
  "data_lines fp = data_lines fp' \<Longrightarrow> make_output cfg fp = make_output cfg fp'"
  by (simp add: make_output_def)

lemma make_all_data_lines:
  "data_lines fp = data_lines fp' \<Longrightarrow> make_all cfg fp = make_all cfg fp'"
  by (simp add: make_all_def make_output_data_lines [of fp fp'])

lemma required_missing_TypeError:
  "required_missing m r \<Longrightarrow> sample_path m r = Inl TypeError"
  by (auto simp: required_missing_def has_key_def missing_def missing_or_empty_def sample_path_def
      getitem_def os_path_join_def is_ok_def str_add_def
      split: if_splits option.splits pyval.splits)

lemma make_output_elems:
  assumes "make_output cfg fp = Inr outs" and "t \<in> set outs"
  shows "\<exists>r\<in>set (fst (DictReader (data_lines fp))). \<exists>c\<in>set (enable_callers cfg). \<exists>p d ext.
           sample_path (mode cfg) r = Inr p \<and> get_outdir cfg c = Inr (PStr d)
           \<and> get_filext cfg ''vcf'' = Inr ext
           \<and> t = join_str p [d, ''survivor'', c @ ext]
           \<and> (p \<noteq> [] \<and> \<not> endswith p ''/'' \<and> d \<noteq> [] \<and> \<not> startswith d ''/'' \<and> \<not> endswith d ''/''
                \<and> \<not> startswith c ''/'' \<and> c \<noteq> [] \<longrightarrow>
               t = p @ ''/'' @ d @ ''/survivor/'' @ c @ ext)"
proof -
  obtain rows pending where dr: "DictReader (data_lines fp) = (rows, pending)"
    by (cases "DictReader (data_lines fp)")
  have "make_output_loop cfg 0 rows pending [] = Inr outs"
    using assms(1) by (auto simp: make_output_def dr split: if_splits)
  from make_output_loop_elems [OF this assms(2)]
  obtain r c p d ext where *: "r \<in> set rows" "c \<in> set (enable_callers cfg)"
    "sample_path (mode cfg) r = Inr p" "get_outdir cfg c = Inr (PStr d)"
    "get_filext cfg ''vcf'' = Inr ext" "t = join_str p [d, ''survivor'', c @ ext]"
    by auto
  have "t = p @ ''/'' @ d @ ''/survivor/'' @ c @ ext"
    if "p \<noteq> []" "\<not> endswith p ''/''" "d \<noteq> []" "\<not> startswith d ''/''" "\<not> endswith d ''/''"
      "\<not> startswith c ''/''" "c \<noteq> []"
  proof -
    have "\<not> startswith (c @ ext) ''/''"
      using that(6,7) by (simp add: startswith_sep)
    from join_str_plain [OF that(1-5) this] show ?thesis by (simp add: *(6))
  qed
  with * show ?thesis
    unfolding dr by (intro bexI [of _ r] bexI [of _ c] exI [of _ p] exI [of _ d] exI [of _ ext]) auto
qed

section \<open>The example inputs, evaluated\<close>

lemmas csv_defs = parse_process_char_def start_field_def end_of_record_def parse_add_char_def
  parse_save_field_def parse_reset_def is_nl_def

lemmas path_defs = sample_path_def getitem_def os_path_join_def is_ok_def str_add_def join_str_def
  join_step_def startswith_def endswith_def

lemmas cfg_defs = get_callers_def get_filext_def get_outdir_def caller_settings_def

lemma ex_config_simps:
  "samples ex_config = ''samples.csv''" "mode ex_config = ''p''" "enable_callers ex_config = [''manta'']"
  "callers ex_config ''manta'' = Some [''outdir'' \<mapsto> PStr ''manta_out'', ''memory'' \<mapsto> PInt 2048]"
  "callers ex_config ''delly'' = Some [''outdir'' \<mapsto> PStr ''delly_out'']"
  "callers ex_config ''ghost'' = None"
  "file_exts ex_config ''vcf'' = Some ''.vcf''"
  by (simp_all add: ex_config_def)

lemma ex_ghost_simps:
  "samples ex_ghost = ''samples.csv''" "mode ex_ghost = ''p''"
  "enable_callers ex_ghost = [''manta'', ''ghost'']"
  "callers ex_ghost = callers ex_config" "file_exts ex_ghost = file_exts ex_config"
  by (simp_all add: ex_ghost_def ex_config_def)

lemma ex_config2_simps:
  "samples ex_config2 = ''samples.csv''" "mode ex_config2 = ''p''"
  "enable_callers ex_config2 = [''manta'', ''delly'']"
  "callers ex_config2 = callers ex_config" "file_exts ex_config2 = file_exts ex_config"
  by (simp_all add: ex_config2_def ex_config_def)

lemma ex_single_simps:
  "samples ex_single = ''samples.csv''" "mode ex_single = ''s''"
  "enable_callers ex_single = [''manta'']"
  "callers ex_single = callers ex_config" "file_exts ex_single = file_exts ex_config"
  by (simp_all add: ex_single_def ex_config_def)

lemma data_lines_ex:
  "data_lines [eol ''PATH,SAMPLE1,SAMPLE2'', eol ''runs,A,B''] = [eol ''PATH,SAMPLE1,SAMPLE2'', eol ''runs,A,B'']"
  "data_lines ex_short = ex_short"
  "data_lines ex_two = ex_two"
  by (simp_all add: data_lines_def is_comment_def startswith_def eol_def ex_short_def ex_two_def ex_header_def)

lemma data_lines_ex2:
  "data_lines ex_manifest = ex_manifest"
  "data_lines ex_manifest_no2 = ex_manifest_no2"
  "data_lines ex_empty_path = ex_empty_path"
  "data_lines ex_bad_first = ex_bad_first"
  "data_lines [ex_header] = [ex_header]"
  "data_lines ex_commented = ex_short"
  by (simp_all add: data_lines_def is_comment_def startswith_def eol_def ex_manifest_def
      ex_manifest_no2_def ex_empty_path_def ex_bad_first_def ex_header_def ex_commented_def ex_short_def)

lemma csv_ex_manifest:
  "csv_reader parse_reset ex_manifest = ([[''PATH'', ''SAMPLE1'', ''SAMPLE2''], [''runs'', ''A'', ''B'']], None)"
  by (simp add: csv_defs eol_def ex_manifest_def)

lemma ex_manifest_rows: "DictReader (data_lines ex_manifest) = ([ex_row], None)"
  unfolding data_lines_ex2 DictReader_def csv_ex_manifest
  by (simp add: dict_row_def dict_of_def ex_row_def)

lemma csv_ex_two:
  "csv_reader parse_reset ex_two = ([[''PATH'', ''SAMPLE1'', ''SAMPLE2''], [''runs'', ''A'', ''B''], [''runs'', ''C'', ''D'']], None)"
  by (simp add: csv_defs eol_def ex_two_def ex_header_def)

lemma ex_two_rows: "DictReader (data_lines ex_two) = ([ex_row, ex_row2], None)"
  unfolding data_lines_ex DictReader_def csv_ex_two
  by (simp add: dict_row_def dict_of_def ex_row_def ex_row2_def)

lemma csv_ex_short:
  "csv_reader parse_reset ex_short = ([[''PATH'', ''SAMPLE1'', ''SAMPLE2''], [''runs'', ''A'', ''B''], [''runs'', ''C'']], None)"
  by (simp add: csv_defs eol_def ex_short_def ex_header_def)

lemma ex_short_rows: "DictReader (data_lines ex_short) = ([ex_row, ex_row_short], None)"
  unfolding data_lines_ex DictReader_def csv_ex_short
  by (simp add: dict_row_def dict_of_def ex_row_def ex_row_short_def)

lemma csv_ex_manifest_no2:
  "csv_reader parse_reset ex_manifest_no2 = ([[''PATH'', ''SAMPLE1'', ''SAMPLE2''], [''runs'', ''A'']], None)"
  by (simp add: csv_defs eol_def ex_manifest_no2_def ex_header_def)

lemma ex_manifest_no2_rows: "DictReader (data_lines ex_manifest_no2) = ([ex_row_no2], None)"
  unfolding data_lines_ex2 DictReader_def csv_ex_manifest_no2
  by (simp add: dict_row_def dict_of_def ex_row_no2_def)

lemma csv_ex_header:
  "csv_reader parse_reset [ex_header] = ([[''PATH'', ''SAMPLE1'', ''SAMPLE2'']], None)"
  by (simp add: csv_defs eol_def ex_header_def)

lemma ex_header_rows: "DictReader (data_lines [ex_header]) = ([], None)"
  unfolding data_lines_ex2 DictReader_def csv_ex_header
  by simp

lemma csv_ex_empty_path:
  "csv_reader parse_reset ex_empty_path = ([[''PATH'', ''SAMPLE1''], [[], ''A'']], None)"
  by (simp add: csv_defs eol_def ex_empty_path_def)

lemma ex_empty_path_rows: "DictReader (data_lines ex_empty_path) = ([ex_row_empty_path], None)"
  unfolding data_lines_ex2 DictReader_def csv_ex_empty_path
  by (simp add: dict_row_def dict_of_def ex_row_empty_path_def)

lemma csv_ex_bad_first:
  "csv_reader parse_reset ex_bad_first = ([[''PATH'', ''SAMPLE1'', ''SAMPLE2''], [''runs'', [], ''B'']], None)"
  by (simp add: csv_defs eol_def ex_bad_first_def ex_header_def)

lemma ex_bad_first_rows: "DictReader (data_lines ex_bad_first) = ([ex_row_bad], None)"
  unfolding data_lines_ex2 DictReader_def csv_ex_bad_first
  by (simp add: dict_row_def dict_of_def ex_row_bad_def)

lemma ex_row_path: "sample_path ''p'' ex_row = Inr ''runs/A--B''"
  by (simp add: path_defs ex_row_def)

lemma ex_rows_ok:
  "row_ok ''p'' ex_row" "row_ok ''p'' ex_row2" "row_ok ''s'' ex_row" "row_ok ''s'' ex_row_no2"
  "row_ok ''s'' ex_row_empty_path"
  by (simp_all add: row_ok_def has_str_def filled_def startswith_def ex_row_def ex_row2_def
      ex_row_no2_def ex_row_empty_path_def)

lemma ex_rows_dir:
  "row_dir ''p'' ex_row = ''runs/A--B''" "row_dir ''p'' ex_row2 = ''runs/C--D''"
  "row_dir ''s'' ex_row = ''runs/A''" "row_dir ''s'' ex_row_no2 = ''runs/A''"
  "row_dir ''s'' ex_row_empty_path = ''A''"
  by (simp_all add: row_dir_def cell_str_def join_str_def join_step_def startswith_def endswith_def
      ex_row_def ex_row2_def ex_row_no2_def ex_row_empty_path_def)

lemma ex_get_outdir:
  "get_outdir ex_config ''manta'' = Inr (PStr ''manta_out'')"
  "get_outdir ex_config ''delly'' = Inr (PStr ''delly_out'')"
  "get_filext ex_config ''vcf'' = Inr ''.vcf''"
  by (simp_all add: get_outdir_def get_filext_def caller_settings_def ex_config_simps)

lemma ex_manifest_output:
  "make_output ex_config ex_manifest = Inr [''runs/A--B/manta_out/survivor/manta.vcf'']"
  by (simp add: make_output_def ex_manifest_rows ex_config_simps ex_row_path cfg_defs
      os_path_join_def join_str_def join_step_def startswith_def endswith_def)

lemma merged_path_ex:
  "merged_path ''runs/A--B/manta_out/survivor/manta.vcf'' = ''runs/A--B/all.vcf''"
  "merged_path ''runs/A--B/delly_out/survivor/delly.vcf'' = ''runs/A--B/all.vcf''"
  by (simp_all add: merged_path_def join_str_def join_step_def startswith_def endswith_def)

lemma ex_manifest_all: "make_all ex_config ex_manifest = Inr {''runs/A--B/all.vcf''}"
  by (simp add: make_all_def ex_manifest_output merge_targets_def merged_path_ex)

section \<open>Validation of the enabled callers\<close>

text \<open>
  Claim C1, as amended.  If an enabled caller is absent from the supported-caller mapping,
  \<^verbatim>\<open>get_callers\<close> raises the not-supported assertion for the first such name.
  \<^verbatim>\<open>make_output\<close> calls \<^verbatim>\<open>get_callers\<close> inside its loop over the rows, once for each
  data row and after that row's sample path has been built: with a valid mode and a first data
  row that passes validation it raises that assertion and returns no target, whatever follows in
  the manifest; over a manifest without data rows it returns the empty list and the assertion is
  never raised.
\<close>

theorem unsupported_caller_raised_in_row_loop:
  assumes "c \<in> set (enable_callers cfg)" and "callers cfg c = None"
    and "mode cfg = ''s'' \<or> mode cfg = ''p''"
  shows "\<exists>c'. find (\<lambda>c. callers cfg c = None) (enable_callers cfg) = Some c'
           \<and> get_callers cfg = Inl (Raise (AssertionError (NotSupported c')))
           \<and> (\<forall>fp r rs pending.
                 DictReader (data_lines fp) = (r # rs, pending) \<and> row_ok (mode cfg) r \<longrightarrow>
                 make_output cfg fp = Inl (Raise (AssertionError (NotSupported c'))))
           \<and> (\<forall>fp. DictReader (data_lines fp) = ([], None) \<longrightarrow> make_output cfg fp = Inr [])"
proof -
  from assms(1,2) obtain c' where f: "find (\<lambda>c. callers cfg c = None) (enable_callers cfg) = Some c'"
    by (cases "find (\<lambda>c. callers cfg c = None) (enable_callers cfg)") (auto simp: find_None_iff)
  have gc: "get_callers cfg = Inl (Raise (AssertionError (NotSupported c')))"
    by (simp add: get_callers_find f)
  have m: "\<not> (mode cfg \<noteq> ''s'' \<and> mode cfg \<noteq> ''p'')"
    using assms(3) by auto
  have a: "make_output cfg fp = Inl (Raise (AssertionError (NotSupported c')))"
    if "DictReader (data_lines fp) = (r # rs, pending)" and "row_ok (mode cfg) r" for fp r rs pending
    using m by (simp add: make_output_def that(1) sample_path_ok [OF that(2)] gc)
  have b: "make_output cfg fp = Inr []" if "DictReader (data_lines fp) = ([], None)" for fp
    using m by (simp add: make_output_def that)
  show ?thesis
    using f gc a b by blast
qed

theorem unsupported_caller_witness:
  "''ghost'' \<in> set (enable_callers ex_ghost) \<and> callers ex_ghost ''ghost'' = None
   \<and> mode ex_ghost = ''p''
   \<and> get_callers ex_ghost = Inl (Raise (AssertionError (NotSupported ''ghost'')))
   \<and> make_output ex_ghost ex_manifest = Inl (Raise (AssertionError (NotSupported ''ghost'')))
   \<and> make_output ex_ghost [ex_header] = Inr []"
proof -
  have h1: "''ghost'' \<in> set (enable_callers ex_ghost)" by (simp add: ex_ghost_simps)
  have h2: "callers ex_ghost ''ghost'' = None" by (simp add: ex_ghost_simps ex_config_simps)
  have h3: "mode ex_ghost = ''s'' \<or> mode ex_ghost = ''p''" by (simp add: ex_ghost_simps)
  from unsupported_caller_raised_in_row_loop [OF h1 h2 h3] obtain c' where
    f: "find (\<lambda>c. callers ex_ghost c = None) (enable_callers ex_ghost) = Some c'"
    and g: "get_callers ex_ghost = Inl (Raise (AssertionError (NotSupported c')))"
    and a: "\<And>fp r rs pending. DictReader (data_lines fp) = (r # rs, pending) \<Longrightarrow> row_ok (mode ex_ghost) r \<Longrightarrow>
              make_output ex_ghost fp = Inl (Raise (AssertionError (NotSupported c')))"
    and b: "\<And>fp. DictReader (data_lines fp) = ([], None) \<Longrightarrow> make_output ex_ghost fp = Inr []"
    by blast
  have c': "c' = ''ghost''"
    using f by (simp add: ex_ghost_simps ex_config_simps)
  have ok: "row_ok (mode ex_ghost) ex_row" by (simp add: ex_ghost_simps ex_rows_ok)
  show ?thesis
    using h1 h2 g a [OF ex_manifest_rows ok] b [OF ex_header_rows]
    by (simp add: c' ex_ghost_simps)
qed

text \<open>
  The claim as it was stated (the error is produced before any manifest line is read, for
  every configuration with an unsupported entry) fails: with \<^verbatim>\<open>ghost\<close> enabled and not
  supported, a manifest that holds only its header returns the empty list, and a manifest
  whose first data row has an empty \<^verbatim>\<open>SAMPLE1\<close> ends with the report on that row, which
  was read and validated first.
\<close>

theorem unsupported_caller_counterexample:
  "enable_callers ex_ghost = [''manta'', ''ghost''] \<and> callers ex_ghost ''ghost'' = None
   \<and> make_output ex_ghost [ex_header] = Inr []
   \<and> make_output ex_ghost ex_bad_first
       = Inl (OsExit (MissingValues ''samples.csv'' 1 [PStr ''runs'', PStr [], PStr ''B'']) 1)"
  by (simp add: make_output_def ex_header_rows ex_bad_first_rows ex_ghost_simps ex_config_simps
      path_defs ex_row_bad_def dict_values_def)

section \<open>Rows with a missing value\<close>

text \<open>
  Claim C2, as amended.  Take a data row whose header names \<^verbatim>\<open>PATH\<close>, \<^verbatim>\<open>SAMPLE1\<close> and,
  in paired mode, \<^verbatim>\<open>SAMPLE2\<close>, and in which \<^verbatim>\<open>PATH\<close> is missing (the row is too short to
  reach its column), or \<^verbatim>\<open>SAMPLE1\<close> is missing or empty, or, in paired mode,
  \<^verbatim>\<open>SAMPLE2\<close> is missing or empty.  Then \<^verbatim>\<open>make_output\<close> and \<^verbatim>\<open>make_all\<close> return no
  collection at all, so the row appears in none; and when the rows before it were processed
  without failure, \<^verbatim>\<open>make_output\<close> prints the missing-values message with the 1-based
  index of the row among the data rows and the row's raw values, and ends the process with
  status 1.
\<close>

theorem missing_value_aborts:
  assumes "mode cfg = ''s'' \<or> mode cfg = ''p''"
    and "DictReader (data_lines fp) = (pre @ r # post, pending)"
    and "required_missing (mode cfg) r"
  shows "isl (make_output cfg fp) \<and> isl (make_all cfg fp)
       \<and> (\<forall>outs. make_output_loop cfg 0 pre None [] = Inr outs \<longrightarrow>
            make_output cfg fp
              = Inl (OsExit (MissingValues (samples cfg) (length pre + 1) (dict_values r)) 1)
          \<and> make_all cfg fp
              = Inl (OsExit (MissingValues (samples cfg) (length pre + 1) (dict_values r)) 1))"
proof -
  have sp: "sample_path (mode cfg) r = Inl TypeError"
    using assms(3) by (rule required_missing_TypeError)
  have mo: "make_output cfg fp = make_output_loop cfg 0 (pre @ r # post) pending []"
    using assms(1) by (auto simp: make_output_def assms(2))
  have "isl (make_output_loop cfg 0 (pre @ r # post) pending [])"
    by (rule make_output_loop_bad_row [OF _ sp]) simp
  then have a: "isl (make_output cfg fp)" by (simp add: mo)
  then have b: "isl (make_all cfg fp)"
    by (cases "make_output cfg fp") (simp_all add: make_all_def)
  have c: "make_output cfg fp
             = Inl (OsExit (MissingValues (samples cfg) (length pre + 1) (dict_values r)) 1)"
    if "make_output_loop cfg 0 pre None [] = Inr outs" for outs
    by (simp add: mo make_output_loop_append that sp)
  show ?thesis
    using a b c by (simp add: make_all_def)
qed

theorem missing_value_witness:
  "mode ex_config = ''p''
   \<and> DictReader (data_lines ex_short) = ([ex_row] @ ex_row_short # [], None)
   \<and> required_missing ''p'' ex_row_short
   \<and> make_output ex_config ex_short
       = Inl (OsExit (MissingValues ''samples.csv'' 2 [PStr ''runs'', PStr ''C'', PNone]) 1)
   \<and> make_all ex_config ex_short
       = Inl (OsExit (MissingValues ''samples.csv'' 2 [PStr ''runs'', PStr ''C'', PNone]) 1)"
proof -
  have h1: "mode ex_config = ''s'' \<or> mode ex_config = ''p''" by (simp add: ex_config_simps)
  have h2: "DictReader (data_lines ex_short) = ([ex_row] @ ex_row_short # [], None)"
    by (simp add: ex_short_rows)
  have rm: "required_missing ''p'' ex_row_short"
    by (simp add: required_missing_def has_key_def missing_def missing_or_empty_def startswith_def
        ex_row_short_def)
  then have h3: "required_missing (mode ex_config) ex_row_short" by (simp add: ex_config_simps)
  have pre: "make_output_loop ex_config 0 [ex_row] None [] = Inr [''runs/A--B/manta_out/survivor/manta.vcf'']"
    by (simp add: ex_config_simps ex_row_path cfg_defs os_path_join_def join_str_def join_step_def
        startswith_def endswith_def)
  from missing_value_aborts [OF h1 h2 h3] pre show ?thesis
    using h2 rm by (simp add: ex_config_simps dict_values_def ex_row_short_def)
qed

text \<open>
  The claim as it was stated fails for an empty \<^verbatim>\<open>PATH\<close>, which is joined as it is (the
  row \<^verbatim>\<open>,A\<close> yields a target in single mode), and for a key that the header does not
  name, which is a \<^verbatim>\<open>KeyError\<close> leaving \<^verbatim>\<open>make_output\<close> and not the report.
\<close>

theorem missing_value_counterexample:
  "DictReader (data_lines ex_empty_path) = ([ex_row_empty_path], None)
   \<and> map_of ex_row_empty_path (Some ''PATH'') = Some (PStr [])
   \<and> make_output ex_single ex_empty_path = Inr [''A/manta_out/survivor/manta.vcf'']
   \<and> map_of ex_row_empty_path (Some ''SAMPLE2'') = None
   \<and> make_output ex_config ex_empty_path = Inl (Raise (KeyError ''SAMPLE2''))"
  by (simp add: make_output_def ex_empty_path_rows ex_single_simps ex_config_simps path_defs cfg_defs
      ex_row_empty_path_def)

section \<open>The cross product of rows and callers\<close>

text \<open>
  Claim C3.  In a valid mode, for a manifest that the reader turns into \<open>N\<close> data rows, all
  accepted by the validation, and a list of \<open>K\<close> enabled callers, each supported with a
  string as its output directory, the vcf extension being configured, \<^verbatim>\<open>make_output\<close>
  returns exactly \<open>N * K\<close> targets: for each row in manifest order, one target for each
  caller in the order of the enabled list.
\<close>

theorem make_output_cross_product:
  assumes "mode cfg = ''s'' \<or> mode cfg = ''p''"
    and "DictReader (data_lines fp) = (rows, None)"
    and "list_all (row_ok (mode cfg)) rows"
    and "get_filext cfg ''vcf'' = Inr ext"
    and "list_all (\<lambda>c. get_outdir cfg c = Inr (PStr (od c))) (enable_callers cfg)"
  shows "\<exists>outs. make_output cfg fp = Inr outs
           \<and> length outs = length rows * length (enable_callers cfg)
           \<and> outs = concat (map (\<lambda>r. map (\<lambda>c. join_str (row_dir (mode cfg) r) [od c, ''survivor'', c @ ext])
                                    (enable_callers cfg)) rows)"
proof -
  have od: "\<forall>c\<in>set (enable_callers cfg). get_outdir cfg c = Inr (PStr (od c))"
    using assms(5) by (simp add: list_all_iff)
  have "make_output cfg fp = make_output_loop cfg 0 rows None []"
    using assms(1) by (auto simp: make_output_def assms(2))
  then show ?thesis
    by (simp add: make_output_loop_ok [OF assms(4) od assms(3)] length_concat_const)
qed

theorem make_output_cross_product_witness:
  "mode ex_config2 = ''p''
   \<and> DictReader (data_lines ex_two) = ([ex_row, ex_row2], None)
   \<and> list_all (row_ok ''p'') [ex_row, ex_row2]
   \<and> enable_callers ex_config2 = [''manta'', ''delly'']
   \<and> (\<exists>outs. make_output ex_config2 ex_two = Inr outs \<and> length outs = 2 * 2
         \<and> outs = [''runs/A--B/manta_out/survivor/manta.vcf'', ''runs/A--B/delly_out/survivor/delly.vcf'',
                    ''runs/C--D/manta_out/survivor/manta.vcf'', ''runs/C--D/delly_out/survivor/delly.vcf''])"
proof -
  have h1: "mode ex_config2 = ''s'' \<or> mode ex_config2 = ''p''" by (simp add: ex_config2_simps)
  have h3: "list_all (row_ok (mode ex_config2)) [ex_row, ex_row2]"
    by (simp add: ex_config2_simps ex_rows_ok)
  have h4: "get_filext ex_config2 ''vcf'' = Inr ''.vcf''"
    by (simp add: get_filext_def ex_config2_simps ex_config_simps)
  have h5: "list_all (\<lambda>c. get_outdir ex_config2 c = Inr (PStr (ex_outdir c))) (enable_callers ex_config2)"
    by (simp add: get_outdir_def caller_settings_def ex_config2_simps ex_config_simps ex_outdir_def)
  from make_output_cross_product [OF h1 ex_two_rows h3 h4 h5] show ?thesis
    using h3
    by (simp add: ex_config2_simps ex_two_rows ex_rows_dir ex_outdir_def join_str_def join_step_def
        startswith_def endswith_def)
qed

section \<open>The shape of a target\<close>

text \<open>
  Claim C4.  Every target that \<^verbatim>\<open>make_output\<close> returns is
  \<^verbatim>\<open>os.path.join(samplePath, callerOutDir, "survivor", callerName + vcfExt)\<close> for a data row
  of the manifest and an enabled caller, which the code's comment writes
  \<^verbatim>\<open>PATH/SAMPLE1[--SAMPLE2]/CALLER_OUTDIR/survivor/CALLER.vcf\<close>; it is the string
  \<^verbatim>\<open>samplePath/callerOutDir/survivor/callerName.vcfExt\<close> itself whenever the sample path does
  not end with a separator, the output directory is not empty and neither begins nor ends with
  one, and the caller's name is not empty and does not begin with one.  For the manifest row
  \<^verbatim>\<open>runs,A,B\<close> under the header \<^verbatim>\<open>PATH,SAMPLE1,SAMPLE2\<close>, in paired mode with
  \<^verbatim>\<open>manta\<close> enabled, \<^verbatim>\<open>make_output\<close> returns
  \<^verbatim>\<open>["runs/A--B/manta_out/survivor/manta.vcf"]\<close> and \<^verbatim>\<open>make_all\<close> returns
  \<^verbatim>\<open>{"runs/A--B/all.vcf"}\<close>.
\<close>

theorem per_caller_target_shape:
  "(\<forall>outs t. make_output cfg fp = Inr outs \<and> t \<in> set outs \<longrightarrow>
      (\<exists>r\<in>set (fst (DictReader (data_lines fp))). \<exists>c\<in>set (enable_callers cfg). \<exists>p d ext.
           sample_path (mode cfg) r = Inr p \<and> get_outdir cfg c = Inr (PStr d)
           \<and> get_filext cfg ''vcf'' = Inr ext
           \<and> t = join_str p [d, ''survivor'', c @ ext]
           \<and> (p \<noteq> [] \<and> \<not> endswith p ''/'' \<and> d \<noteq> [] \<and> \<not> startswith d ''/'' \<and> \<not> endswith d ''/''
                \<and> \<not> startswith c ''/'' \<and> c \<noteq> [] \<longrightarrow>
               t = p @ ''/'' @ d @ ''/survivor/'' @ c @ ext)))
   \<and> DictReader (data_lines ex_manifest) = ([ex_row], None)
   \<and> make_output ex_config ex_manifest = Inr [''runs/A--B/manta_out/survivor/manta.vcf'']
   \<and> make_all ex_config ex_manifest = Inr {''runs/A--B/all.vcf''}"
  using make_output_elems [of cfg fp] ex_manifest_rows ex_manifest_output ex_manifest_all
  by blast

theorem per_caller_target_shape_witness:
  "make_output ex_config ex_manifest = Inr [''runs/A--B/manta_out/survivor/manta.vcf'']
   \<and> ''runs/A--B/manta_out/survivor/manta.vcf'' \<in> set [''runs/A--B/manta_out/survivor/manta.vcf'']
   \<and> sample_path (mode ex_config) ex_row = Inr ''runs/A--B''
   \<and> get_outdir ex_config ''manta'' = Inr (PStr ''manta_out'')
   \<and> get_filext ex_config ''vcf'' = Inr ''.vcf''
   \<and> ''runs/A--B/manta_out/survivor/manta.vcf''
       = ''runs/A--B'' @ ''/'' @ ''manta_out'' @ ''/survivor/'' @ ''manta'' @ ''.vcf''"
proof -
  have m: "make_output ex_config ex_manifest = Inr [''runs/A--B/manta_out/survivor/manta.vcf'']
      \<and> ''runs/A--B/manta_out/survivor/manta.vcf'' \<in> set [''runs/A--B/manta_out/survivor/manta.vcf'']"
    by (simp add: ex_manifest_output)
  note g = per_caller_target_shape [of ex_config ex_manifest, THEN conjunct1, rule_format, OF m]
  from g
  obtain p d ext where
    "sample_path (mode ex_config) ex_row = Inr p" "get_outdir ex_config ''manta'' = Inr (PStr d)"
    "get_filext ex_config ''vcf'' = Inr ext"
    "p \<noteq> [] \<and> \<not> endswith p ''/'' \<and> d \<noteq> [] \<and> \<not> startswith d ''/'' \<and> \<not> endswith d ''/''
       \<and> \<not> startswith ''manta'' ''/'' \<and> ''manta'' \<noteq> [] \<longrightarrow>
     ''runs/A--B/manta_out/survivor/manta.vcf'' = p @ ''/'' @ d @ ''/survivor/'' @ ''manta'' @ ext"
    by (auto simp: ex_manifest_rows ex_config_simps)
  then show ?thesis
    using m by (simp add: ex_config_simps ex_row_path ex_get_outdir startswith_def endswith_def)
qed

section \<open>The merged targets\<close>

text \<open>
  Claim C5.  The merged targets of a sequence of per-caller targets do not depend on the
  order of the sequence nor on how often a path occurs in it: a permutation of the sequence
  gives the same set, deriving again from the sequence followed by a permutation of itself
  adds nothing, a path is in the set exactly when some target maps to it, and the set has one
  element for each distinct merged path.
\<close>

theorem merge_targets_permutation:
  assumes "mset xs = mset ys"
  shows "merge_targets xs = merge_targets ys
       \<and> merge_targets (xs @ ys) = merge_targets xs
       \<and> (\<forall>p. p \<in> merge_targets xs \<longleftrightarrow> (\<exists>f\<in>set xs. merged_path f = p))
       \<and> card (merge_targets xs) = length (remdups (map merged_path xs))"
proof -
  have s: "set xs = set ys" using assms by (rule mset_eq_setD)
  have c: "card (merge_targets xs) = length (remdups (map merged_path xs))"
    unfolding merge_targets_def by (rule card_set)
  have "merge_targets xs = merge_targets ys" "merge_targets (xs @ ys) = merge_targets xs"
    "\<forall>p. p \<in> merge_targets xs \<longleftrightarrow> (\<exists>f\<in>set xs. merged_path f = p)"
    using s by (auto simp: merge_targets_def)
  with c show ?thesis by simp
qed

theorem merge_targets_permutation_witness:
  "mset [''runs/A--B/manta_out/survivor/manta.vcf'', ''runs/A--B/delly_out/survivor/delly.vcf'']
     = mset [''runs/A--B/delly_out/survivor/delly.vcf'', ''runs/A--B/manta_out/survivor/manta.vcf'']
   \<and> merge_targets [''runs/A--B/manta_out/survivor/manta.vcf'', ''runs/A--B/delly_out/survivor/delly.vcf'']
     = merge_targets [''runs/A--B/delly_out/survivor/delly.vcf'', ''runs/A--B/manta_out/survivor/manta.vcf'']
   \<and> merge_targets [''runs/A--B/manta_out/survivor/manta.vcf'', ''runs/A--B/delly_out/survivor/delly.vcf'']
     = {''runs/A--B/all.vcf''}"
proof -
  have h: "mset [''runs/A--B/manta_out/survivor/manta.vcf'', ''runs/A--B/delly_out/survivor/delly.vcf'']
     = mset [''runs/A--B/delly_out/survivor/delly.vcf'', ''runs/A--B/manta_out/survivor/manta.vcf'']"
    by (simp add: add.commute)
  from merge_targets_permutation [OF h] h show ?thesis
    by (simp add: merge_targets_def merged_path_ex)
qed

section \<open>Comment lines\<close>

text \<open>
  Claim C6.  Lines that start with \<^verbatim>\<open>#\<close>, inserted anywhere in a manifest, change neither
  the result of \<^verbatim>\<open>make_output\<close> nor that of \<^verbatim>\<open>make_all\<close>: the targets are the same, and
  so is a failure, with the record index it cites.  Every manifest gives the result of the
  manifest with all its comment lines removed.
\<close>

theorem comment_lines_skipped:
  assumes "list_all is_comment cs"
  shows "make_output cfg (xs @ cs @ ys) = make_output cfg (xs @ ys)
       \<and> make_all cfg (xs @ cs @ ys) = make_all cfg (xs @ ys)
       \<and> make_output cfg fp = make_output cfg (data_lines fp)
       \<and> make_all cfg fp = make_all cfg (data_lines fp)"
proof -
  have a: "data_lines (xs @ cs @ ys) = data_lines (xs @ ys)"
    using assms by (rule data_lines_insert)
  have b: "data_lines fp = data_lines (data_lines fp)"
    by (simp add: data_lines_idem)
  show ?thesis
    using make_output_data_lines [OF a] make_all_data_lines [OF a]
      make_output_data_lines [OF b] make_all_data_lines [OF b]
    by simp
qed

theorem comment_lines_skipped_witness:
  "list_all is_comment [eol ''#runs,X,Y'']
   \<and> make_output ex_config ([ex_header, eol ''runs,A,B''] @ [eol ''#runs,X,Y''] @ [eol ''runs,C''])
       = make_output ex_config ([ex_header, eol ''runs,A,B''] @ [eol ''runs,C''])
   \<and> make_output ex_config ex_commented = make_output ex_config ex_short
   \<and> make_output ex_config ex_short
       = Inl (OsExit (MissingValues ''samples.csv'' 2 [PStr ''runs'', PStr ''C'', PNone]) 1)"
proof -
  have h: "list_all is_comment [eol ''#runs,X,Y'']"
    by (simp add: is_comment_def startswith_def eol_def)
  have v: "make_output ex_config ex_short
       = Inl (OsExit (MissingValues ''samples.csv'' 2 [PStr ''runs'', PStr ''C'', PNone]) 1)"
    by (simp add: make_output_def ex_short_rows ex_config_simps cfg_defs path_defs
        ex_row_def ex_row_short_def dict_values_def)
  from comment_lines_skipped [OF h, of ex_config "[ex_header, eol ''runs,A,B'']" "[eol ''runs,C'']" ex_commented]
  show ?thesis
    using h v by (simp add: data_lines_ex2)
qed

section \<open>Single and paired mode\<close>

text \<open>
  Claim C7.  For a row with strings under \<^verbatim>\<open>PATH\<close>, \<^verbatim>\<open>SAMPLE1\<close> and \<^verbatim>\<open>SAMPLE2\<close>,
  none empty, single mode builds the sample path \<^verbatim>\<open>os.path.join(PATH, SAMPLE1)\<close> and
  paired mode builds the same followed by \<^verbatim>\<open>--SAMPLE2\<close>; the two are always different.
  When \<^verbatim>\<open>PATH\<close> does not end with a separator and \<^verbatim>\<open>SAMPLE1\<close> does not begin with one,
  they are the strings \<^verbatim>\<open>PATH/SAMPLE1\<close> and \<^verbatim>\<open>PATH/SAMPLE1--SAMPLE2\<close>.
\<close>

theorem mode_sensitivity:
  assumes "map_of r (Some ''PATH'') = Some (PStr p)"
    and "map_of r (Some ''SAMPLE1'') = Some (PStr s1)"
    and "map_of r (Some ''SAMPLE2'') = Some (PStr s2)"
    and "p \<noteq> []" and "s1 \<noteq> []" and "s2 \<noteq> []"
  shows "sample_path ''s'' r = Inr (join_str p [s1])
       \<and> sample_path ''p'' r = Inr (join_str p [s1] @ ''--'' @ s2)
       \<and> sample_path ''s'' r \<noteq> sample_path ''p'' r
       \<and> (\<not> endswith p ''/'' \<and> \<not> startswith s1 ''/'' \<longrightarrow>
            sample_path ''s'' r = Inr (p @ ''/'' @ s1)
          \<and> sample_path ''p'' r = Inr (p @ ''/'' @ s1 @ ''--'' @ s2))"
proof -
  note sp = sample_path_single_paired [OF assms(1-3) assms(5) assms(6)]
  show ?thesis
    using assms(4) by (auto simp: sp join_str_two)
qed

theorem mode_sensitivity_witness:
  "map_of ex_row (Some ''PATH'') = Some (PStr ''runs'')
   \<and> map_of ex_row (Some ''SAMPLE1'') = Some (PStr ''A'')
   \<and> map_of ex_row (Some ''SAMPLE2'') = Some (PStr ''B'')
   \<and> sample_path ''s'' ex_row = Inr ''runs/A''
   \<and> sample_path ''p'' ex_row = Inr ''runs/A--B''
   \<and> sample_path ''s'' ex_row \<noteq> sample_path ''p'' ex_row"
proof -
  have h: "map_of ex_row (Some ''PATH'') = Some (PStr ''runs'')"
    "map_of ex_row (Some ''SAMPLE1'') = Some (PStr ''A'')"
    "map_of ex_row (Some ''SAMPLE2'') = Some (PStr ''B'')"
    by (simp_all add: ex_row_def)
  have n: "''runs'' \<noteq> []" "''A'' \<noteq> []" "''B'' \<noteq> []" by simp_all
  have e: "\<not> endswith ''runs'' ''/''" "\<not> startswith ''A'' ''/''"
    by (simp_all add: endswith_def startswith_def)
  from mode_sensitivity [OF h n] e h show ?thesis
    by (simp add: join_str_def join_step_def startswith_def endswith_def)
qed

text \<open>
  Claim C9.  In single mode \<^verbatim>\<open>SAMPLE2\<close> is ignored: for two manifests whose data rows
  differ at most in what they hold under \<^verbatim>\<open>SAMPLE2\<close> (a value, the empty string, nothing,
  or no such column), \<^verbatim>\<open>make_output\<close> returns the same list of targets, or fails on both,
  and each row has the same sample path in both.
\<close>

theorem single_mode_ignores_sample2:
  assumes "mode cfg = ''s''"
    and "DictReader (data_lines fp) = (rows, pending)"
    and "DictReader (data_lines fp') = (rows', pending)"
    and "list_all2 same_but_sample2 rows rows'"
  shows "returned (make_output cfg fp) = returned (make_output cfg fp')
       \<and> (\<forall>outs. (make_output cfg fp = Inr outs) = (make_output cfg fp' = Inr outs))
       \<and> isl (make_output cfg fp) = isl (make_output cfg fp')
       \<and> list_all2 (\<lambda>r r'. sample_path ''s'' r = sample_path ''s'' r') rows rows'"
proof -
  have "returned (make_output cfg fp) = returned (make_output cfg fp')"
    using single_loop_same [OF assms(1) assms(4)]
    by (simp add: make_output_def assms(1-3))
  moreover have "list_all2 (\<lambda>r r'. sample_path ''s'' r = sample_path ''s'' r') rows rows'"
    using assms(4) by (rule list_all2_mono) (rule sample_path_single_same)
  ultimately show ?thesis
    by (simp add: returned_Inr returned_isl)
qed

theorem single_mode_ignores_sample2_witness:
  "mode ex_single = ''s''
   \<and> DictReader (data_lines ex_manifest) = ([ex_row], None)
   \<and> DictReader (data_lines ex_manifest_no2) = ([ex_row_no2], None)
   \<and> list_all2 same_but_sample2 [ex_row] [ex_row_no2]
   \<and> returned (make_output ex_single ex_manifest) = returned (make_output ex_single ex_manifest_no2)
   \<and> make_output ex_single ex_manifest_no2 = Inr [''runs/A/manta_out/survivor/manta.vcf'']"
proof -
  have h1: "mode ex_single = ''s''" by (simp add: ex_single_simps)
  have h4: "list_all2 same_but_sample2 [ex_row] [ex_row_no2]"
    by (simp add: same_but_sample2_def ex_row_def ex_row_no2_def)
  have v: "make_output ex_single ex_manifest_no2 = Inr [''runs/A/manta_out/survivor/manta.vcf'']"
    by (simp add: make_output_def ex_manifest_no2_rows ex_single_simps ex_config_simps cfg_defs path_defs
        ex_row_no2_def)
  from single_mode_ignores_sample2 [OF h1 ex_manifest_rows ex_manifest_no2_rows h4]
  show ?thesis
    using h1 h4 v by (simp add: ex_manifest_rows ex_manifest_no2_rows)
qed

section \<open>The workflow mode\<close>

text \<open>
  Claim C8.  For every workflow mode other than \<^verbatim>\<open>s\<close> and \<^verbatim>\<open>p\<close>,
  \<^verbatim>\<open>make_output\<close> prints the invalid-mode message and ends the process with status 1; no
  targets are produced, whatever the manifest holds (and \<^verbatim>\<open>make_all\<close>, which calls it, ends
  the same way).
\<close>

theorem invalid_mode_exits:
  assumes "mode cfg \<noteq> ''s''" and "mode cfg \<noteq> ''p''"
  shows "make_output cfg fp = Inl (OsExit InvalidMode 1) \<and> make_all cfg fp = Inl (OsExit InvalidMode 1)"
  using assms by (simp add: make_output_def make_all_def)

theorem invalid_mode_exits_witness:
  "mode (ex_config\<lparr>mode := ''x''\<rparr>) \<noteq> ''s'' \<and> mode (ex_config\<lparr>mode := ''x''\<rparr>) \<noteq> ''p''
   \<and> make_output (ex_config\<lparr>mode := ''x''\<rparr>) ex_manifest = Inl (OsExit InvalidMode 1)
   \<and> make_all (ex_config\<lparr>mode := ''x''\<rparr>) ex_manifest = Inl (OsExit InvalidMode 1)"
  using invalid_mode_exits [of "ex_config\<lparr>mode := ''x''\<rparr>" ex_manifest] by simp

section \<open>Resource accessors\<close>

text \<open>
  Claim C10.  For a caller of the supported-caller mapping, \<^verbatim>\<open>get_nthreads\<close>,
  \<^verbatim>\<open>get_memory\<close> and \<^verbatim>\<open>get_tmpspace\<close> return the value configured under
  \<^verbatim>\<open>threads\<close>, \<^verbatim>\<open>memory\<close> and \<^verbatim>\<open>tmpspace\<close> unchanged, and the defaults 1, 1024
  and 0 when the key is absent from the caller's settings.
\<close>

theorem resource_defaults:
  assumes "callers cfg c = Some s"
  shows "get_nthreads cfg c = Inr (case s ''threads'' of None \<Rightarrow> PInt 1 | Some v \<Rightarrow> v)
       \<and> get_memory cfg c = Inr (case s ''memory'' of None \<Rightarrow> PInt 1024 | Some v \<Rightarrow> v)
       \<and> get_tmpspace cfg c = Inr (case s ''tmpspace'' of None \<Rightarrow> PInt 0 | Some v \<Rightarrow> v)"
  using assms
  by (simp add: get_nthreads_def get_memory_def get_tmpspace_def caller_settings_def
      split: option.splits)

theorem resource_defaults_witness:
  "callers ex_config ''manta'' = Some [''outdir'' \<mapsto> PStr ''manta_out'', ''memory'' \<mapsto> PInt 2048]
   \<and> get_nthreads ex_config ''manta'' = Inr (PInt 1)
   \<and> get_memory ex_config ''manta'' = Inr (PInt 2048)
   \<and> get_tmpspace ex_config ''manta'' = Inr (PInt 0)"
  using resource_defaults [OF ex_config_simps(4)] by (simp add: ex_config_simps)

end
